theory Spec2Isabelle
  imports Main
begin

section \<open>The document text extraction service (ResumeBackend/app.py)\<close>

text \<open>
  The service is one Flask handler, \<open>parse_document\<close>, and two extraction routines.
  The handler touches three things outside itself: the request, the filesystem and the
  parsing libraries. Each is an explicit argument of the model.

  \<^item> A Python \<open>str\<close> is a \<open>string\<close>: the text in its UTF-8 encoding, one \<open>char\<close> per
    byte. The content of a file is a \<open>string\<close> of bytes as well, so decoding a file
    that is valid UTF-8 leaves the bytes as they are.
  \<^item> The filesystem is a map from path strings to file contents, together with what
    the operating system allows at each path. \<open>creatable\<close>: \<open>open(path, "wb")\<close> succeeds
    (it raises \<open>OSError\<close> elsewhere: the parent directory is missing, the path names a
    directory, the name is too long). \<open>copy_stops\<close>: \<open>Some n\<close> when writing into the open
    file raises after \<open>n\<close> bytes (the disk is full, the device fails), \<open>None\<close> when
    the copy completes. \<open>readable\<close>: \<open>open(path, "r")\<close> succeeds on a file that exists.
    \<open>removable\<close>: \<open>os.remove(path)\<close> succeeds on a file that exists (it raises
    \<open>PermissionError\<close> elsewhere: the directory is not writable or is sticky and the
    file belongs to someone else, the path is an entry of \<open>/proc\<close> or \<open>/dev\<close>). A file holds
    the bytes that were written to it.
  \<^item> Every call to the filesystem or to a library is recorded in \<open>calls\<close>, in order.
  \<^item> An exception that no \<open>except\<close> clause of the source catches ends the handler:
    the outcome is \<open>Raised\<close>, and Flask answers in place of the handler.
\<close>

subsection \<open>Data\<close>

type_synonym pathname = string
type_synonym bytes = string
type_synonym str = string

datatype exn =
    OSError pathname
  | FileNotFoundError pathname
  | PermissionError pathname
  | UnicodeDecodeError bytes

datatype call =
    FileSave pathname
  | OsRemove pathname
  | FitzOpen pathname
  | DocxDocument pathname
  | OpenRead pathname

record sys =
  files :: "pathname \<rightharpoonup> bytes"
  creatable :: "pathname \<Rightarrow> bool"
  copy_stops :: "pathname \<Rightarrow> nat option"
  readable :: "pathname \<Rightarrow> bool"
  removable :: "pathname \<Rightarrow> bool"
  calls :: "call list"

text \<open>
  The libraries. \<open>fitz\<close> is \<open>None\<close> when \<open>import fitz\<close> failed at process start (line 13).
  Otherwise it maps the file at a path to what the \<open>try\<close> block of
  \<open>extract_text_from_pdf\<close> gets from the library: \<open>Inl m\<close> when one of the calls
  (\<open>open\<close>, \<open>page_count\<close>, \<open>load_page\<close>, \<open>get_text\<close>, \<open>close\<close>) raised an exception whose
  \<open>str\<close> is \<open>m\<close>, \<open>Inr ts\<close> when all of them returned and \<open>ts\<close> are the texts of the pages
  in order. \<open>docx_Document\<close> is the same for \<open>docx.Document(path).paragraphs\<close> and the
  \<open>text\<close> of each paragraph. \<open>str_exn\<close> is Python's \<open>str(e)\<close> for the exceptions of
  \<open>open\<close> and of the UTF-8 codec.
\<close>

record libs =
  fitz :: "((pathname \<rightharpoonup> bytes) \<Rightarrow> pathname \<Rightarrow> string + str list) option"
  docx_Document :: "(pathname \<rightharpoonup> bytes) \<Rightarrow> pathname \<Rightarrow> string + str list"
  str_exn :: "exn \<Rightarrow> string"

text \<open>
  A \<open>FileStorage\<close> of Werkzeug: the filename the client sent, unchanged, and the bytes
  of the upload. \<open>request.files\<close> maps field names to uploads.
\<close>

record upload =
  filename :: string
  content :: bytes

record request =
  request_files :: "string \<rightharpoonup> upload"

datatype json =
    ParsedText str
  | Error str

datatype outcome =
    Returned nat json
  | Raised exn

subsection \<open>Python's string and path functions\<close>

definition LF :: char where
  "LF = CHR 0x0A"

definition CR :: char where
  "CR = CHR 0x0D"

definition lower_char :: "char \<Rightarrow> char" where
  "lower_char c =
     (case map_of (zip ''ABCDEFGHIJKLMNOPQRSTUVWXYZ'' ''abcdefghijklmnopqrstuvwxyz'') c of
        Some d \<Rightarrow> d
      | None \<Rightarrow> c)"

text \<open>
  \<open>str.lower\<close>. Bytes outside \<open>A\<close>..\<open>Z\<close> stay as they are; no character outside ASCII
  has a lower case that contains one of the letters of \<open>.pdf\<close>, \<open>.docx\<close> and \<open>.txt\<close>, so
  the three suffix tests of the handler see what they see in Python.
\<close>

definition lower :: "string \<Rightarrow> string" where
  "lower s = map lower_char s"

definition endswith :: "string \<Rightarrow> string \<Rightarrow> bool" where
  "endswith s suf =
     (length suf \<le> length s \<and> drop (length s - length suf) s = suf)"

definition startswith :: "string \<Rightarrow> string \<Rightarrow> bool" where
  "startswith s pre = (take (length pre) s = pre)"

definition truthy :: "string \<Rightarrow> bool" where
  "truthy s = (s \<noteq> [])"

text \<open>\<open>a or b\<close> where \<open>a\<close> is \<open>None\<close> or a \<open>str\<close>.\<close>

definition py_or :: "string option \<Rightarrow> string \<Rightarrow> string" where
  "py_or a b = (case a of None \<Rightarrow> b | Some m \<Rightarrow> if truthy m then m else b)"

text \<open>\<open>os.path.join\<close> of \<open>posixpath\<close>, for two arguments.\<close>

definition os_path_join :: "pathname \<Rightarrow> pathname \<Rightarrow> pathname" where
  "os_path_join a b =
     (if startswith b ''/'' then b
      else if \<not> truthy a \<or> endswith a ''/'' then a @ b
      else a @ ''/'' @ b)"

definition UPLOAD_FOLDER :: pathname where
  "UPLOAD_FOLDER = ''uploadresume''"

subsection \<open>Filesystem operations\<close>

text \<open>
  \<open>file.save(filepath)\<close> opens the destination with \<open>open(dst, "wb")\<close>, which empties a
  file that exists, and copies the upload into it. Nothing is undone when the copy
  raises: the bytes written so far stay in the file.
\<close>

definition file_save :: "upload \<Rightarrow> pathname \<Rightarrow> sys \<Rightarrow> exn option \<times> sys" where
  "file_save file dst s =
     (if creatable s dst
      then (case copy_stops s dst of
              None \<Rightarrow>
                (None,
                 s\<lparr>files := (files s)(dst \<mapsto> content file),
                   calls := calls s @ [FileSave dst]\<rparr>)
            | Some n \<Rightarrow>
                (Some (OSError dst),
                 s\<lparr>files := (files s)(dst \<mapsto> take n (content file)),
                   calls := calls s @ [FileSave dst]\<rparr>))
      else (Some (OSError dst), s\<lparr>calls := calls s @ [FileSave dst]\<rparr>))"

text \<open>
  \<open>os.remove(path)\<close> raises \<open>FileNotFoundError\<close> when there is no such file and
  \<open>PermissionError\<close> when the file may not be unlinked; the file then stays.
\<close>

definition os_remove :: "pathname \<Rightarrow> sys \<Rightarrow> exn option \<times> sys" where
  "os_remove p s =
     (case files s p of
        Some _ \<Rightarrow>
          if removable s p
          then (None, s\<lparr>files := (files s)(p := None), calls := calls s @ [OsRemove p]\<rparr>)
          else (Some (PermissionError p), s\<lparr>calls := calls s @ [OsRemove p]\<rparr>)
      | None \<Rightarrow> (Some (FileNotFoundError p), s\<lparr>calls := calls s @ [OsRemove p]\<rparr>))"

subsection \<open>Reading a text file\<close>

text \<open>
  The strict UTF-8 codec accepts the well-formed byte sequences of the Unicode
  standard: no overlong forms, no surrogates, nothing above U+10FFFF.
\<close>

definition cont :: "nat \<Rightarrow> bool" where
  "cont b = (128 \<le> b \<and> b \<le> 191)"

fun utf8_ok :: "nat list \<Rightarrow> bool" where
  "utf8_ok [] = True"
| "utf8_ok (b # bs) =
     (if b < 128 then utf8_ok bs
      else if 194 \<le> b \<and> b \<le> 223 then
        (case bs of c1 # r \<Rightarrow> cont c1 \<and> utf8_ok r | _ \<Rightarrow> False)
      else if 224 \<le> b \<and> b \<le> 239 then
        (case bs of
           c1 # c2 # r \<Rightarrow>
             (if b = 224 then 160 \<le> c1 \<and> c1 \<le> 191
              else if b = 237 then 128 \<le> c1 \<and> c1 \<le> 159
              else cont c1) \<and> cont c2 \<and> utf8_ok r
         | _ \<Rightarrow> False)
      else if 240 \<le> b \<and> b \<le> 244 then
        (case bs of
           c1 # c2 # c3 # r \<Rightarrow>
             (if b = 240 then 144 \<le> c1 \<and> c1 \<le> 191
              else if b = 244 then 128 \<le> c1 \<and> c1 \<le> 143
              else cont c1) \<and> cont c2 \<and> cont c3 \<and> utf8_ok r
         | _ \<Rightarrow> False)
      else False)"

definition valid_utf8 :: "bytes \<Rightarrow> bool" where
  "valid_utf8 bs = utf8_ok (map of_char bs)"

text \<open>
  A file opened in text mode with the default \<open>newline=None\<close> is read with universal
  newlines: \<open>\r\n\<close> and a lone \<open>\r\<close> both arrive as \<open>\n\<close>.
\<close>

fun translate_newlines :: "str \<Rightarrow> str" where
  "translate_newlines [] = []"
| "translate_newlines [c] = [if c = CR then LF else c]"
| "translate_newlines (c # d # cs) =
     (if c = CR \<and> d = LF then LF # translate_newlines cs
      else if c = CR then LF # translate_newlines (d # cs)
      else c # translate_newlines (d # cs))"

text \<open>
  \<open>with open(filepath, 'r', encoding='utf-8') as f: f.read()\<close>: the text, or the
  exception that \<open>open\<close> or \<open>read\<close> raised.
\<close>

definition open_read_utf8 :: "pathname \<Rightarrow> sys \<Rightarrow> (exn + str) \<times> sys" where
  "open_read_utf8 p s =
     (let s' = s\<lparr>calls := calls s @ [OpenRead p]\<rparr> in
      case files s p of
        None \<Rightarrow> (Inl (FileNotFoundError p), s')
      | Some bs \<Rightarrow>
          if \<not> readable s p then (Inl (PermissionError p), s')
          else if valid_utf8 bs then (Inr (translate_newlines bs), s')
          else (Inl (UnicodeDecodeError bs), s'))"

subsection \<open>The extraction routines\<close>

text \<open>
  Both routines return the pair \<open>(text, error)\<close> of the source, one of the two being
  \<open>None\<close>. The loops \<open>text += page.get_text()\<close> and \<open>text += paragraph.text + "\n"\<close>
  start from the empty string.
\<close>

fun pdf_loop :: "str \<Rightarrow> str list \<Rightarrow> str" where
  "pdf_loop text [] = text"
| "pdf_loop text (page # pages) = pdf_loop (text @ page) pages"

fun docx_loop :: "str \<Rightarrow> str list \<Rightarrow> str" where
  "docx_loop text [] = text"
| "docx_loop text (paragraph # paragraphs) =
     docx_loop (text @ (paragraph @ [LF])) paragraphs"

definition extract_text_from_pdf ::
  "libs \<Rightarrow> pathname \<Rightarrow> sys \<Rightarrow> (str option \<times> str option) \<times> sys" where
  "extract_text_from_pdf env pdf_path s =
     (case fitz env of
        None \<Rightarrow> ((None, Some ''PyMuPDF library is not available for PDF parsing.''), s)
      | Some fitz_open \<Rightarrow>
          (let s' = s\<lparr>calls := calls s @ [FitzOpen pdf_path]\<rparr> in
           case fitz_open (files s) pdf_path of
             Inr pages \<Rightarrow> ((Some (pdf_loop [] pages), None), s')
           | Inl e \<Rightarrow> ((None, Some (''Error extracting text from PDF: '' @ e)), s')))"

definition extract_text_from_docx ::
  "libs \<Rightarrow> pathname \<Rightarrow> sys \<Rightarrow> (str option \<times> str option) \<times> sys" where
  "extract_text_from_docx env docx_path s =
     (let s' = s\<lparr>calls := calls s @ [DocxDocument docx_path]\<rparr> in
      case docx_Document env (files s) docx_path of
        Inr paragraphs \<Rightarrow> ((Some (docx_loop [] paragraphs), None), s')
      | Inl e \<Rightarrow> ((None, Some (''Error extracting text from DOCX: '' @ e)), s'))"

text \<open>The \<open>.txt\<close> branch of the handler (lines 83 to 87), with its \<open>try\<close>.\<close>

definition read_txt ::
  "libs \<Rightarrow> pathname \<Rightarrow> sys \<Rightarrow> (str option \<times> str option) \<times> sys" where
  "read_txt env filepath s =
     (case open_read_utf8 filepath s of
        (Inr t, s') \<Rightarrow> ((Some t, None), s')
      | (Inl e, s') \<Rightarrow> ((None, Some (''Error reading TXT file: '' @ str_exn env e)), s'))"

subsection \<open>The handler\<close>

text \<open>\<open>FileStorage.__bool__\<close> of Werkzeug is \<open>bool(self.filename)\<close>.\<close>

definition file_bool :: "upload \<Rightarrow> bool" where
  "file_bool file = truthy (filename file)"

definition unsupported_message :: str where
  "unsupported_message = ''Unsupported file type. Please upload a PDF, DOCX, or TXT file.''"

definition fallback_message :: str where
  "fallback_message =
     ''Failed to extract text from the document. The file might be corrupted or in an unsupported format.''"

definition unexpected_message :: str where
  "unexpected_message = ''An unexpected error occurred.''"

text \<open>
  Lines 94 to 97: what is answered once the temporary file is removed.
\<close>

definition respond :: "str option \<times> str option \<Rightarrow> outcome" where
  "respond r =
     (case r of (extracted_text, error_message) \<Rightarrow>
        (case extracted_text of
           Some t \<Rightarrow>
             if truthy t then Returned 200 (ParsedText t)
             else Returned 500 (Error (py_or error_message fallback_message))
         | None \<Rightarrow> Returned 500 (Error (py_or error_message fallback_message))))"

text \<open>
  Lines 78 to 88: the branch on the extension. \<open>None\<close> is the \<open>else\<close> branch, which
  leaves the handler at line 90.
\<close>

definition extraction_step ::
  "libs \<Rightarrow> string \<Rightarrow> pathname \<Rightarrow> sys \<Rightarrow> ((str option \<times> str option) \<times> sys) option" where
  "extraction_step env fname filepath s =
     (if endswith (lower fname) ''.pdf'' then Some (extract_text_from_pdf env filepath s)
      else if endswith (lower fname) ''.docx'' then Some (extract_text_from_docx env filepath s)
      else if endswith (lower fname) ''.txt'' then Some (read_txt env filepath s)
      else None)"

definition parse_document :: "libs \<Rightarrow> sys \<Rightarrow> request \<Rightarrow> outcome \<times> sys" where
  "parse_document env s req =
     (case request_files req ''file'' of
        None \<Rightarrow> (Returned 400 (Error ''No file part in the request''), s)
      | Some file \<Rightarrow>
          if filename file = [] then (Returned 400 (Error ''No selected file''), s)
          else if file_bool file then
            (let fname = filename file;
                 filepath = os_path_join UPLOAD_FOLDER fname
             in case file_save file filepath s of
                  (Some e, s1) \<Rightarrow> (Raised e, s1)
                | (None, s1) \<Rightarrow>
                    (case extraction_step env fname filepath s1 of
                       None \<Rightarrow>
                         (case os_remove filepath s1 of
                            (Some e, s2) \<Rightarrow> (Raised e, s2)
                          | (None, s2) \<Rightarrow> (Returned 400 (Error unsupported_message), s2))
                     | Some (r, s2) \<Rightarrow>
                         (case os_remove filepath s2 of
                            (Some e, s3) \<Rightarrow> (Raised e, s3)
                          | (None, s3) \<Rightarrow> (respond r, s3))))
          else (Returned 500 (Error unexpected_message), s))"

subsection \<open>Resolving a path\<close>

text \<open>
  Whether a path stays inside the upload folder is read off \<open>os.path.normpath\<close> (of
  \<open>posixpath\<close>), which drops empty and \<open>.\<close> components and lets \<open>..\<close> cancel the component
  before it.
\<close>

fun split_sep :: "string \<Rightarrow> string list" where
  "split_sep [] = [[]]"
| "split_sep (c # cs) =
     (if c = CHR ''/'' then [] # split_sep cs
      else (case split_sep cs of
              part # parts \<Rightarrow> (c # part) # parts
            | [] \<Rightarrow> [[c]]))"

fun join_sep :: "string list \<Rightarrow> string" where
  "join_sep [] = []"
| "join_sep [part] = part"
| "join_sep (part # parts) = part @ ''/'' @ join_sep parts"

fun normpath_loop :: "nat \<Rightarrow> string list \<Rightarrow> string list \<Rightarrow> string list" where
  "normpath_loop initial_slashes new_parts [] = new_parts"
| "normpath_loop initial_slashes new_parts (part # parts) =
     (if part = [] \<or> part = ''.'' then normpath_loop initial_slashes new_parts parts
      else if part \<noteq> ''..'' \<or> (initial_slashes = 0 \<and> new_parts = [])
                \<or> (new_parts \<noteq> [] \<and> last new_parts = ''..'')
        then normpath_loop initial_slashes (new_parts @ [part]) parts
      else if new_parts \<noteq> [] then normpath_loop initial_slashes (butlast new_parts) parts
      else normpath_loop initial_slashes new_parts parts)"

definition normpath :: "pathname \<Rightarrow> pathname" where
  "normpath p =
     (if p = [] then ''.''
      else
        (let initial_slashes =
               (if startswith p ''/''
                then (if startswith p ''//'' \<and> \<not> startswith p ''///'' then 2 else 1)
                else (0::nat));
             q = replicate initial_slashes (CHR ''/'')
                 @ join_sep (normpath_loop initial_slashes [] (split_sep p))
         in if q = [] then ''.'' else q))"

definition inside_upload_folder :: "pathname \<Rightarrow> bool" where
  "inside_upload_folder p = startswith (normpath p) (UPLOAD_FOLDER @ ''/'')"

subsection \<open>Concrete requests, libraries and filesystems\<close>

text \<open>
  \<open>upload_request\<close> is a request whose field \<open>file\<close> carries one upload. \<open>stub_libs\<close> is a
  pair of libraries that answer the same for every file: \<open>pdf\<close> is \<open>None\<close> when \<open>fitz\<close> could
  not be imported. \<open>server\<close> is a filesystem in which files can be created directly in
  the listed directories and nowhere else, every copy completes, and every file can be
  read and removed; \<open>fresh_server\<close> is the one the process starts in, with an empty
  upload folder and no other place to write. \<open>pinned\<close> adds paths that can be opened for
  writing but not unlinked (\<open>/proc/self/comm\<close>, \<open>/dev/null\<close>, a file of one's own in a
  directory that is not writable). \<open>full_disk\<close> makes every copy stop after \<open>n\<close> bytes.
  \<open>write_only\<close> takes the permission to read from the listed paths.
\<close>

definition file_storage :: "string \<Rightarrow> bytes \<Rightarrow> upload" where
  "file_storage fname bs = \<lparr>filename = fname, content = bs\<rparr>"

definition upload_request :: "string \<Rightarrow> bytes \<Rightarrow> request" where
  "upload_request fname bs = \<lparr>request_files = [''file'' \<mapsto> file_storage fname bs]\<rparr>"

definition empty_request :: request where
  "empty_request = \<lparr>request_files = Map.empty\<rparr>"

definition stub_libs :: "(string + str list) option \<Rightarrow> string + str list \<Rightarrow> libs" where
  "stub_libs pdf docx =
     \<lparr>fitz = map_option (\<lambda>r fs p. r) pdf,
      docx_Document = (\<lambda>fs p. docx),
      str_exn = (\<lambda>e. ''codec or file error'')\<rparr>"

definition plain_child :: "pathname \<Rightarrow> pathname \<Rightarrow> bool" where
  "plain_child dir p =
     (startswith p (dir @ ''/'') \<and>
      (let name = drop (length dir + 1) p
       in name \<noteq> [] \<and> name \<noteq> ''.'' \<and> name \<noteq> ''..'' \<and> CHR ''/'' \<notin> set name))"

definition server :: "pathname list \<Rightarrow> (pathname \<times> bytes) list \<Rightarrow> sys" where
  "server dirs present =
     \<lparr>files = map_of present,
      creatable = (\<lambda>p. list_ex (\<lambda>dir. plain_child dir p) dirs),
      copy_stops = (\<lambda>p. None),
      readable = (\<lambda>p. True),
      removable = (\<lambda>p. True),
      calls = []\<rparr>"

definition fresh_server :: sys where
  "fresh_server = server [UPLOAD_FOLDER] []"

definition pinned :: "pathname list \<Rightarrow> sys \<Rightarrow> sys" where
  "pinned ps s =
     s\<lparr>creatable := (\<lambda>p. p \<in> set ps \<or> creatable s p),
       removable := (\<lambda>p. p \<notin> set ps \<and> removable s p)\<rparr>"

definition full_disk :: "nat \<Rightarrow> sys \<Rightarrow> sys" where
  "full_disk n s = s\<lparr>copy_stops := (\<lambda>p. Some n)\<rparr>"

definition write_only :: "pathname list \<Rightarrow> sys \<Rightarrow> sys" where
  "write_only ps s = s\<lparr>readable := (\<lambda>p. p \<notin> set ps \<and> readable s p)\<rparr>"

text \<open>
  \<open>locked_server\<close> is a server whose upload folder is sticky and holds \<open>cv.pdf\<close>, \<open>cv.docx\<close>
  and \<open>note.txt\<close> of another user, writable by everyone: the process can overwrite them
  and cannot unlink them. The process can also write to \<open>/proc/self/comm\<close>, which it
  cannot unlink either.
\<close>

definition locked_server :: sys where
  "locked_server =
     pinned [''uploadresume/cv.pdf'', ''uploadresume/cv.docx'', ''uploadresume/note.txt'',
             ''/proc/self/comm'']
       (server [UPLOAD_FOLDER]
          [(''uploadresume/cv.pdf'', ''old''), (''uploadresume/cv.docx'', ''old''),
           (''uploadresume/note.txt'', ''old''), (''/proc/self/comm'', ''python3'')])"

subsection \<open>The state after a save and after a removal\<close>

text \<open>
  What \<open>file_save\<close> and \<open>os_remove\<close> leave behind when they succeed, and what they leave
  behind when the copy stops and when the removal is refused. \<open>finish\<close> is the end of the
  handler, lines 89 to 90 and lines 92 to 97: the removal and then the answer.
\<close>

definition after_save :: "upload \<Rightarrow> pathname \<Rightarrow> sys \<Rightarrow> sys" where
  "after_save file p s = s\<lparr>files := (files s)(p \<mapsto> content file), calls := calls s @ [FileSave p]\<rparr>"

definition after_remove :: "pathname \<Rightarrow> sys \<Rightarrow> sys" where
  "after_remove p s = s\<lparr>files := (files s)(p := None), calls := calls s @ [OsRemove p]\<rparr>"

definition after_partial_save :: "nat \<Rightarrow> upload \<Rightarrow> pathname \<Rightarrow> sys \<Rightarrow> sys" where
  "after_partial_save n file p s =
     s\<lparr>files := (files s)(p \<mapsto> take n (content file)), calls := calls s @ [FileSave p]\<rparr>"

definition after_refused_remove :: "pathname \<Rightarrow> sys \<Rightarrow> sys" where
  "after_refused_remove p s = s\<lparr>calls := calls s @ [OsRemove p]\<rparr>"

definition finish :: "outcome \<Rightarrow> pathname \<Rightarrow> sys \<Rightarrow> outcome \<times> sys" where
  "finish answer p s =
     (if removable s p then (answer, after_remove p s)
      else (Raised (PermissionError p), after_refused_remove p s))"

section \<open>Properties\<close>

subsection \<open>The handler after the input checks\<close>

text \<open>
  The extraction routines change nothing but the record of calls, so the file that
  \<open>file_save\<close> wrote is still there when \<open>os_remove\<close> runs: the removal can be refused,
  it cannot miss the file. \<open>parse_document_present\<close> is the handler once both input checks
  have passed, case by case.
\<close>

lemma extraction_step_state:
  assumes "extraction_step env fname p s = Some (r, s')"
  shows "\<exists>more. s' = s\<lparr>calls := calls s @ more\<rparr>"
proof -
  have "\<exists>more. s' = s\<lparr>calls := calls s @ [more]\<rparr> \<or> s' = s"
    using assms
    by (auto simp: extraction_step_def extract_text_from_pdf_def extract_text_from_docx_def
        read_txt_def open_read_utf8_def Let_def split: if_splits option.splits sum.splits)
  then obtain c where "s' = s\<lparr>calls := calls s @ [c]\<rparr> \<or> s' = s\<lparr>calls := calls s @ []\<rparr>"
    by auto
  then show ?thesis by blast
qed

lemma files_extraction_step:
  assumes "extraction_step env fname p s = Some (r, s')"
  shows "files s' = files s" and "removable s' = removable s"
  using extraction_step_state [OF assms] by auto

lemma calls_extraction_step:
  assumes "extraction_step env fname p s = Some (r, s')"
  shows "\<exists>more. calls s' = calls s @ more"
  using extraction_step_state [OF assms] by auto

lemma os_remove_finish:
  "files s p = Some bs \<Longrightarrow>
   (case os_remove p s of (Some e, s') \<Rightarrow> (Raised e, s') | (None, s') \<Rightarrow> (answer, s'))
     = finish answer p s"
  by (simp add: os_remove_def finish_def after_remove_def after_refused_remove_def)

lemma parse_document_present:
  assumes "request_files req ''file'' = Some file" and "filename file \<noteq> []"
    and "p = os_path_join UPLOAD_FOLDER (filename file)"
  shows "parse_document env s req =
    (if creatable s p then
       (case copy_stops s p of
          Some n \<Rightarrow> (Raised (OSError p), after_partial_save n file p s)
        | None \<Rightarrow>
            (case extraction_step env (filename file) p (after_save file p s) of
               None \<Rightarrow> finish (Returned 400 (Error unsupported_message)) p (after_save file p s)
             | Some (r, s2) \<Rightarrow> finish (respond r) p s2))
     else (Raised (OSError p), s\<lparr>calls := calls s @ [FileSave p]\<rparr>))"
proof (cases "creatable s p \<and> copy_stops s p = None")
  case False
  with assms show ?thesis
    by (auto simp: parse_document_def file_bool_def truthy_def file_save_def Let_def
        after_partial_save_def)
next
  case True
  then have save: "file_save file p s = (None, after_save file p s)"
    by (simp add: file_save_def after_save_def)
  have there: "files (after_save file p s) p = Some (content file)"
    by (simp add: after_save_def)
  show ?thesis
  proof (cases "extraction_step env (filename file) p (after_save file p s)")
    case None
    with assms True save os_remove_finish [OF there] show ?thesis
      by (simp add: parse_document_def file_bool_def truthy_def Let_def)
  next
    case (Some a)
    obtain r s2 where a: "a = (r, s2)" by (cases a)
    have "files s2 p = Some (content file)"
      using files_extraction_step(1) [of env "filename file" p "after_save file p s" r s2]
        Some a there by simp
    from os_remove_finish [OF this] Some a assms True save show ?thesis
      by (simp add: parse_document_def file_bool_def truthy_def Let_def)
  qed
qed

lemma fst_finish:
  "fst (finish answer p s) = (if removable s p then answer else Raised (PermissionError p))"
  by (simp add: finish_def)


lemma removable_after_save [simp]:
  "removable (after_save file p s) = removable s"
  by (simp add: after_save_def)

lemma readable_after_save [simp]:
  "readable (after_save file p s) = readable s"
  by (simp add: after_save_def)

lemma files_after_save:
  "files (after_save file p s) = (files s)(p \<mapsto> content file)"
  by (simp add: after_save_def)

lemma file_save_None:
  "file_save file p s = (None, s1) \<longleftrightarrow>
     creatable s p \<and> copy_stops s p = None \<and> s1 = after_save file p s"
  by (auto simp: file_save_def after_save_def split: option.splits)

lemma fst_parse_document_saved:
  assumes "request_files req ''file'' = Some file" and "filename file \<noteq> []"
    and "creatable s p" and "copy_stops s p = None"
    and "p = os_path_join UPLOAD_FOLDER (filename file)"
  shows "fst (parse_document env s req) =
    (if removable s p
     then (case extraction_step env (filename file) p (after_save file p s) of
             None \<Rightarrow> Returned 400 (Error unsupported_message)
           | Some (r, s2) \<Rightarrow> respond r)
     else Raised (PermissionError p))"
proof (cases "extraction_step env (filename file) p (after_save file p s)")
  case None
  then show ?thesis
    using parse_document_present [OF assms(1,2,5), of env s] assms(3,4)
    by (simp add: fst_finish)
next
  case (Some a)
  obtain r s2 where a: "a = (r, s2)" by (cases a)
  have "removable s2 = removable s"
    using files_extraction_step(2) [of env "filename file" p "after_save file p s" r s2] Some a
    by simp
  then show ?thesis
    using parse_document_present [OF assms(1,2,5), of env s] assms(3,4) Some a
    by (simp add: fst_finish)
qed



lemma fst_parse_document_unsaved:
  assumes "request_files req ''file'' = Some file" and "filename file \<noteq> []"
    and "p = os_path_join UPLOAD_FOLDER (filename file)"
    and "\<not> (creatable s p \<and> copy_stops s p = None)"
  shows "fst (parse_document env s req) = Raised (OSError p)"
  using parse_document_present [OF assms(1,2,3), of env s] assms(4)
  by (auto split: option.split)


lemma extraction_step_message:
  assumes "extraction_step env fname p s = Some ((t, Some m), s')"
  shows "m \<noteq> []"
  using assms
  by (auto simp: extraction_step_def extract_text_from_pdf_def extract_text_from_docx_def
      read_txt_def open_read_utf8_def Let_def split: if_splits option.splits sum.splits)

lemma py_or_message:
  "py_or (Some m) b = (if m = [] then b else m)" "py_or None b = b"
  by (simp_all add: py_or_def truthy_def)

lemma respond_text:
  "respond (Some t, None) =
    (if t = [] then Returned 500 (Error fallback_message) else Returned 200 (ParsedText t))"
  by (simp add: respond_def truthy_def py_or_message)

lemma respond_not_unexpected:
  assumes "extraction_step env fname p s = Some (r, s')"
  shows "respond r \<noteq> Returned 500 (Error unexpected_message)"
proof -
  obtain t e where r: "r = (t, e)" by (cases r)
  have "py_or e fallback_message \<noteq> unexpected_message"
  proof (cases e)
    case None
    then show ?thesis
      by (simp add: py_or_message fallback_message_def unexpected_message_def)
  next
    case (Some m)
    with assms r have "hd m = CHR ''P'' \<or> hd m = CHR ''E''"
      by (auto simp: extraction_step_def extract_text_from_pdf_def extract_text_from_docx_def
          read_txt_def open_read_utf8_def Let_def split: if_splits option.splits sum.splits)
    moreover have "m \<noteq> []"
      using assms r Some extraction_step_message by blast
    ultimately show ?thesis using Some
      by (auto simp: py_or_message unexpected_message_def)
  qed
  then show ?thesis
    by (simp add: r respond_def split: option.split)
qed

subsection \<open>The branch on the extension\<close>

lemma endswith_last:
  assumes "endswith s suf" and "suf \<noteq> []"
  shows "s \<noteq> [] \<and> last s = last suf"
proof -
  from assms have "s = take (length s - length suf) s @ suf"
    by (metis append_take_drop_id endswith_def)
  then show ?thesis using assms(2)
    by (metis append_is_Nil_conv last_appendR)
qed

lemma endswith_nonempty:
  "endswith (lower fname) suf \<Longrightarrow> suf \<noteq> [] \<Longrightarrow> fname \<noteq> []"
  using endswith_last by (fastforce simp: lower_def)

lemma extraction_step_pdf:
  "endswith (lower fname) ''.pdf'' \<Longrightarrow>
   extraction_step env fname p s = Some (extract_text_from_pdf env p s)"
  by (simp add: extraction_step_def)

lemma extraction_step_docx:
  assumes "endswith (lower fname) ''.docx''"
  shows "extraction_step env fname p s = Some (extract_text_from_docx env p s)"
proof -
  have "\<not> endswith (lower fname) ''.pdf''"
    using endswith_last [OF assms] endswith_last [of "lower fname" "''.pdf''"] by auto
  with assms show ?thesis by (simp add: extraction_step_def)
qed

lemma extraction_step_txt:
  assumes "endswith (lower fname) ''.txt''"
  shows "extraction_step env fname p s = Some (read_txt env p s)"
proof -
  have "\<not> endswith (lower fname) ''.pdf''" "\<not> endswith (lower fname) ''.docx''"
    using endswith_last [OF assms] endswith_last [of "lower fname" "''.pdf''"]
      endswith_last [of "lower fname" "''.docx''"] by auto
  with assms show ?thesis by (simp add: extraction_step_def)
qed

lemma extraction_step_unsupported:
  "\<not> endswith (lower fname) ''.pdf'' \<Longrightarrow> \<not> endswith (lower fname) ''.docx'' \<Longrightarrow>
   \<not> endswith (lower fname) ''.txt'' \<Longrightarrow> extraction_step env fname p s = None"
  by (simp add: extraction_step_def)

lemma parse_document_supported:
  assumes "request_files req ''file'' = Some file" and "filename file \<noteq> []"
    and "creatable s p" and "copy_stops s p = None"
    and "p = os_path_join UPLOAD_FOLDER (filename file)"
    and "extraction_step env (filename file) p (after_save file p s) = Some x"
  shows "fst (parse_document env s req) =
    (if removable s p then respond (fst x) else Raised (PermissionError p))"
  using fst_parse_document_saved [OF assms(1-5), of env] assms(6)
  by (simp add: case_prod_unfold)

lemma parse_document_pdf:
  assumes "request_files req ''file'' = Some file"
    and "endswith (lower (filename file)) ''.pdf''"
    and "creatable s p" and "copy_stops s p = None"
    and "p = os_path_join UPLOAD_FOLDER (filename file)"
  shows "fst (parse_document env s req) =
    (if removable s p then respond (fst (extract_text_from_pdf env p (after_save file p s)))
     else Raised (PermissionError p))"
proof -
  have ne: "filename file \<noteq> []" using assms(2) endswith_nonempty by blast
  show ?thesis
    by (rule parse_document_supported [OF assms(1) ne assms(3,4,5)])
      (rule extraction_step_pdf [OF assms(2)])
qed

lemma parse_document_docx:
  assumes "request_files req ''file'' = Some file"
    and "endswith (lower (filename file)) ''.docx''"
    and "creatable s p" and "copy_stops s p = None"
    and "p = os_path_join UPLOAD_FOLDER (filename file)"
  shows "fst (parse_document env s req) =
    (if removable s p then respond (fst (extract_text_from_docx env p (after_save file p s)))
     else Raised (PermissionError p))"
proof -
  have ne: "filename file \<noteq> []" using assms(2) endswith_nonempty by blast
  show ?thesis
    by (rule parse_document_supported [OF assms(1) ne assms(3,4,5)])
      (rule extraction_step_docx [OF assms(2)])
qed

lemma parse_document_txt:
  assumes "request_files req ''file'' = Some file"
    and "endswith (lower (filename file)) ''.txt''"
    and "creatable s p" and "copy_stops s p = None"
    and "p = os_path_join UPLOAD_FOLDER (filename file)"
  shows "fst (parse_document env s req) =
    (if removable s p then respond (fst (read_txt env p (after_save file p s)))
     else Raised (PermissionError p))"
proof -
  have ne: "filename file \<noteq> []" using assms(2) endswith_nonempty by blast
  show ?thesis
    by (rule parse_document_supported [OF assms(1) ne assms(3,4,5)])
      (rule extraction_step_txt [OF assms(2)])
qed

subsection \<open>The text of each file type\<close>

lemma pdf_loop_concat: "pdf_loop acc pages = acc @ concat pages"
  by (induction pages arbitrary: acc) simp_all

lemma docx_loop_concat:
  "docx_loop acc paragraphs = acc @ concat (map (\<lambda>t. t @ [LF]) paragraphs)"
  by (induction paragraphs arbitrary: acc) simp_all

lemma translate_newlines_Nil: "translate_newlines bs = [] \<longleftrightarrow> bs = []"
  by (induction bs rule: translate_newlines.induct) simp_all

lemma translate_newlines_id: "CR \<notin> set bs \<Longrightarrow> translate_newlines bs = bs"
  by (induction bs rule: translate_newlines.induct) auto

lemma extract_text_from_docx_opened:
  assumes "docx_Document env (files s) docx_path = Inr paragraphs"
  shows "fst (extract_text_from_docx env docx_path s) =
    (Some (concat (map (\<lambda>t. t @ [LF]) paragraphs)), None)"
  using assms by (simp add: extract_text_from_docx_def Let_def docx_loop_concat)

lemma extract_text_from_pdf_opened:
  assumes "fitz env = Some fitz_open" and "fitz_open (files s) pdf_path = Inr pages"
  shows "fst (extract_text_from_pdf env pdf_path s) = (Some (concat pages), None)"
  using assms by (simp add: extract_text_from_pdf_def Let_def pdf_loop_concat)

lemma read_txt_valid:
  assumes "files s p = Some bs" and "readable s p" and "valid_utf8 bs"
  shows "fst (read_txt env p s) = (Some (translate_newlines bs), None)"
  using assms by (simp add: read_txt_def open_read_utf8_def Let_def)

subsection \<open>Paths\<close>

lemma os_path_join_upload:
  "os_path_join UPLOAD_FOLDER fname =
    (if startswith fname ''/'' then fname else ''uploadresume/'' @ fname)"
  by (simp add: os_path_join_def UPLOAD_FOLDER_def truthy_def endswith_def)

lemma normpath_absolute:
  assumes "startswith p ''/''"
  shows "\<exists>q. normpath p = CHR ''/'' # q"
proof -
  from assms have ne: "p \<noteq> []" by (auto simp: startswith_def)
  show ?thesis
  proof (cases "startswith p ''//'' \<and> \<not> startswith p ''///''")
    case True
    with assms ne show ?thesis
      by (simp add: normpath_def Let_def numeral_2_eq_2)
  next
    case False
    with assms ne show ?thesis
      by (auto simp add: normpath_def Let_def)
  qed
qed

lemma absolute_outside:
  assumes "startswith p ''/''"
  shows "\<not> inside_upload_folder p"
proof -
  obtain q where "normpath p = CHR ''/'' # q"
    using normpath_absolute [OF assms] by blast
  then show ?thesis
    by (simp add: inside_upload_folder_def startswith_def UPLOAD_FOLDER_def)
qed

subsection \<open>Evaluating the concrete requests and filesystems\<close>

lemma upload_request_file:
  "request_files (upload_request fname bs) ''file'' = Some (file_storage fname bs)"
  "filename (file_storage fname bs) = fname" "content (file_storage fname bs) = bs"
  by (simp_all add: upload_request_def file_storage_def)

lemma fresh_server_creatable:
  "creatable fresh_server p = plain_child UPLOAD_FOLDER p"
  "files fresh_server = Map.empty" "calls fresh_server = []"
  "copy_stops fresh_server p = None" "readable fresh_server p" "removable fresh_server p"
  by (simp_all add: fresh_server_def server_def)

lemma locked_server_eval:
  "creatable locked_server p =
     (p \<in> {''uploadresume/cv.pdf'', ''uploadresume/cv.docx'', ''uploadresume/note.txt'',
            ''/proc/self/comm''} \<or> plain_child UPLOAD_FOLDER p)"
  "removable locked_server p =
     (p \<notin> {''uploadresume/cv.pdf'', ''uploadresume/cv.docx'', ''uploadresume/note.txt'',
            ''/proc/self/comm''})"
  "copy_stops locked_server p = None" "readable locked_server p" "calls locked_server = []"
  by (simp_all add: locked_server_def pinned_def server_def)

lemma full_disk_eval:
  "creatable (full_disk n s) = creatable s" "copy_stops (full_disk n s) p = Some n"
  "files (full_disk n s) = files s" "calls (full_disk n s) = calls s"
  by (simp_all add: full_disk_def)

lemmas eval_paths = os_path_join_def UPLOAD_FOLDER_def startswith_def endswith_def truthy_def
  plain_child_def lower_def lower_char_def Let_def

subsection \<open>The response after extraction\<close>

text \<open>
  Claim C1, as amended. A request reaches the extraction step when the field \<open>file\<close> is
  present, its filename is not empty, the upload was saved and the extension is a
  supported one. If \<open>os.remove\<close> then removes the temporary file, the handler answers 200
  with \<open>parsedText\<close> when the extraction produced a non-empty text, and otherwise 500 with
  \<open>error\<close>: the error message the extraction captured or, when it captured none, the
  generic fallback message. If \<open>os.remove\<close> raises, its \<open>PermissionError\<close> leaves the handler
  and neither answer is given.
\<close>

theorem response_after_extraction:
  assumes "request_files req ''file'' = Some file" and "filename file \<noteq> []"
    and "file_save file (os_path_join UPLOAD_FOLDER (filename file)) s = (None, s1)"
    and "extraction_step env (filename file) (os_path_join UPLOAD_FOLDER (filename file)) s1
           = Some ((extracted_text, error_message), s2)"
  shows "fst (parse_document env s req) =
    (if \<not> removable s (os_path_join UPLOAD_FOLDER (filename file))
     then Raised (PermissionError (os_path_join UPLOAD_FOLDER (filename file)))
     else if extracted_text = None \<or> extracted_text = Some []
     then Returned 500 (Error (case error_message of Some m \<Rightarrow> m | None \<Rightarrow> fallback_message))
     else Returned 200 (ParsedText (the extracted_text)))"
proof -
  let ?p = "os_path_join UPLOAD_FOLDER (filename file)"
  from assms(3) have c: "creatable s ?p" "copy_stops s ?p = None"
    and s1: "s1 = after_save file ?p s"
    by (simp_all add: file_save_None)
  have pd: "fst (parse_document env s req) =
      (if removable s ?p then respond (extracted_text, error_message)
       else Raised (PermissionError ?p))"
    using fst_parse_document_saved [OF assms(1,2) c refl, of env] assms(4) s1 by simp
  have "py_or error_message fallback_message =
      (case error_message of Some m \<Rightarrow> m | None \<Rightarrow> fallback_message)"
  proof (cases error_message)
    case None
    then show ?thesis by (simp add: py_or_message)
  next
    case (Some m)
    with assms(4) have "m \<noteq> []" using extraction_step_message by blast
    with Some show ?thesis by (simp add: py_or_message)
  qed
  with pd show ?thesis
    by (cases extracted_text) (simp_all add: respond_def truthy_def)
qed

theorem response_after_extraction_witness:
  "removable fresh_server ''uploadresume/cv.docx''
   \<and> extraction_step (stub_libs None (Inr [''A'', ''B''])) ''cv.docx'' ''uploadresume/cv.docx''
      (after_save (file_storage ''cv.docx'' ''PK'') ''uploadresume/cv.docx'' fresh_server)
    = Some ((Some ''A\<newline>B\<newline>'', None),
        snd (extract_text_from_docx (stub_libs None (Inr [''A'', ''B''])) ''uploadresume/cv.docx''
          (after_save (file_storage ''cv.docx'' ''PK'') ''uploadresume/cv.docx'' fresh_server)))
   \<and> fst (parse_document (stub_libs None (Inr [''A'', ''B''])) fresh_server
          (upload_request ''cv.docx'' ''PK''))
    = Returned 200 (ParsedText ''A\<newline>B\<newline>'')
   \<and> extraction_step (stub_libs None (Inr [''A'', ''B''])) ''cv.pdf'' ''uploadresume/cv.pdf''
      (after_save (file_storage ''cv.pdf'' ''%PDF-1.7'') ''uploadresume/cv.pdf'' fresh_server)
    = Some ((None, Some ''PyMuPDF library is not available for PDF parsing.''),
        after_save (file_storage ''cv.pdf'' ''%PDF-1.7'') ''uploadresume/cv.pdf'' fresh_server)
   \<and> fst (parse_document (stub_libs None (Inr [''A'', ''B''])) fresh_server
          (upload_request ''cv.pdf'' ''%PDF-1.7''))
    = Returned 500 (Error ''PyMuPDF library is not available for PDF parsing.'')"
proof -
  let ?env = "stub_libs None (Inr [''A'', ''B''])"
  let ?file = "file_storage ''cv.docx'' ''PK''"
  let ?s1 = "after_save ?file ''uploadresume/cv.docx'' fresh_server"
  let ?pdf = "file_storage ''cv.pdf'' ''%PDF-1.7''"
  let ?t1 = "after_save ?pdf ''uploadresume/cv.pdf'' fresh_server"
  have p: "os_path_join UPLOAD_FOLDER (filename ?file) = ''uploadresume/cv.docx''"
    "os_path_join UPLOAD_FOLDER (filename ?pdf) = ''uploadresume/cv.pdf''"
    by (simp_all add: upload_request_file eval_paths)
  have h1: "request_files (upload_request fname bs) ''file'' = Some (file_storage fname bs)"
    for fname bs by (simp add: upload_request_file)
  have h2: "filename ?file \<noteq> []" "filename ?pdf \<noteq> []"
    by (simp_all add: upload_request_file)
  have h3: "file_save ?file (os_path_join UPLOAD_FOLDER (filename ?file)) fresh_server = (None, ?s1)"
    "file_save ?pdf (os_path_join UPLOAD_FOLDER (filename ?pdf)) fresh_server = (None, ?t1)"
    unfolding p by (simp_all add: file_save_None fresh_server_creatable eval_paths)
  have h4: "extraction_step ?env (filename ?file) (os_path_join UPLOAD_FOLDER (filename ?file)) ?s1
      = Some ((Some ''A\<newline>B\<newline>'', None),
          snd (extract_text_from_docx ?env ''uploadresume/cv.docx'' ?s1))"
    unfolding p
    by (simp add: upload_request_file extraction_step_def eval_paths extract_text_from_docx_def
        stub_libs_def LF_def)
  have h5: "extraction_step ?env (filename ?pdf) (os_path_join UPLOAD_FOLDER (filename ?pdf)) ?t1
      = Some ((None, Some ''PyMuPDF library is not available for PDF parsing.''), ?t1)"
    unfolding p
    by (simp add: upload_request_file extraction_step_def eval_paths extract_text_from_pdf_def
        stub_libs_def)
  show ?thesis
    using response_after_extraction [OF h1 h2(1) h3(1) h4]
      response_after_extraction [OF h1 h2(2) h3(2) h5] h4 h5 unfolding p
    by (simp add: upload_request_file fresh_server_creatable)
qed

text \<open>
  The claim as stated fails where the file can be written and not unlinked: on the locked
  server the upload \<open>cv.pdf\<close> is saved, the extraction step runs and captures its message,
  and the request ends in the \<open>PermissionError\<close> of line 92.
\<close>

theorem response_after_extraction_counterexample:
  "file_save (file_storage ''cv.pdf'' ''%PDF-1.7'') ''uploadresume/cv.pdf'' locked_server
     = (None, after_save (file_storage ''cv.pdf'' ''%PDF-1.7'') ''uploadresume/cv.pdf'' locked_server)
   \<and> extraction_step (stub_libs None (Inr [''A'', ''B''])) ''cv.pdf'' ''uploadresume/cv.pdf''
      (after_save (file_storage ''cv.pdf'' ''%PDF-1.7'') ''uploadresume/cv.pdf'' locked_server)
    = Some ((None, Some ''PyMuPDF library is not available for PDF parsing.''),
        after_save (file_storage ''cv.pdf'' ''%PDF-1.7'') ''uploadresume/cv.pdf'' locked_server)
   \<and> fst (parse_document (stub_libs None (Inr [''A'', ''B''])) locked_server
          (upload_request ''cv.pdf'' ''%PDF-1.7''))
    = Raised (PermissionError ''uploadresume/cv.pdf'')"
  by (simp add: parse_document_def upload_request_file file_bool_def file_save_def after_save_def
      locked_server_eval eval_paths extraction_step_def extract_text_from_pdf_def stub_libs_def
      os_remove_def)

subsection \<open>The temporary file\<close>




subsection \<open>The PDF backend is unavailable\<close>

text \<open>
  Claim C3, as amended. When \<open>fitz\<close> is \<open>None\<close>, an upload whose filename ends in \<open>.pdf\<close>
  (in any case) is answered 500 with the message that the PyMuPDF library is not
  available, provided its temporary file is written in full and then removed. When
  \<open>file.save\<close> raises, on opening the destination or during the copy, its \<open>OSError\<close> leaves
  the handler; when \<open>os.remove\<close> raises, its \<open>PermissionError\<close> leaves the handler.
\<close>

theorem pdf_backend_unavailable:
  assumes "fitz env = None"
    and "request_files req ''file'' = Some file"
    and "endswith (lower (filename file)) ''.pdf''"
  shows "fst (parse_document env s req) =
    (if creatable s (os_path_join UPLOAD_FOLDER (filename file))
        \<and> copy_stops s (os_path_join UPLOAD_FOLDER (filename file)) = None
     then (if removable s (os_path_join UPLOAD_FOLDER (filename file))
           then Returned 500 (Error ''PyMuPDF library is not available for PDF parsing.'')
           else Raised (PermissionError (os_path_join UPLOAD_FOLDER (filename file))))
     else Raised (OSError (os_path_join UPLOAD_FOLDER (filename file))))"
proof -
  let ?p = "os_path_join UPLOAD_FOLDER (filename file)"
  have ne: "filename file \<noteq> []"
    using assms(3) endswith_nonempty by blast
  show ?thesis
  proof (cases "creatable s ?p \<and> copy_stops s ?p = None")
    case False
    then show ?thesis
      using fst_parse_document_unsaved [OF assms(2) ne refl False, of env] by simp
  next
    case True
    have "extract_text_from_pdf env ?p (after_save file ?p s) =
        ((None, Some ''PyMuPDF library is not available for PDF parsing.''), after_save file ?p s)"
      using assms(1) by (simp add: extract_text_from_pdf_def)
    then show ?thesis
      using fst_parse_document_saved [OF assms(2) ne _ _ refl, where s = s and env = env] True
        extraction_step_pdf [OF assms(3), of env ?p "after_save file ?p s"]
      by (simp add: respond_def py_or_message)
  qed
qed

theorem pdf_backend_unavailable_witness:
  "fitz (stub_libs None (Inl ''not a docx'')) = None
   \<and> endswith (lower ''Resume.PDF'') ''.pdf''
   \<and> creatable fresh_server ''uploadresume/Resume.PDF''
   \<and> copy_stops fresh_server ''uploadresume/Resume.PDF'' = None
   \<and> removable fresh_server ''uploadresume/Resume.PDF''
   \<and> fst (parse_document (stub_libs None (Inl ''not a docx'')) fresh_server
          (upload_request ''Resume.PDF'' ''%PDF-1.7''))
       = Returned 500 (Error ''PyMuPDF library is not available for PDF parsing.'')"
proof -
  let ?env = "stub_libs None (Inl ''not a docx'')"
  have h1: "fitz ?env = None"
    by (simp add: stub_libs_def)
  have h2: "request_files (upload_request ''Resume.PDF'' ''%PDF-1.7'') ''file''
      = Some (file_storage ''Resume.PDF'' ''%PDF-1.7'')"
    by (simp add: upload_request_file)
  have h3: "endswith (lower (filename (file_storage ''Resume.PDF'' ''%PDF-1.7''))) ''.pdf''"
    by (simp add: upload_request_file eval_paths)
  have p: "os_path_join UPLOAD_FOLDER ''Resume.PDF'' = ''uploadresume/Resume.PDF''"
    by (simp add: eval_paths)
  have c: "creatable fresh_server ''uploadresume/Resume.PDF''"
    by (simp add: fresh_server_creatable eval_paths)
  show ?thesis
    using pdf_backend_unavailable [OF h1 h2 h3, of fresh_server] h1 h3 c
    by (simp add: upload_request_file p fresh_server_creatable)
qed

text \<open>
  The claim as stated fails for a filename that names a directory that does not exist
  (\<open>reports/cv.pdf\<close> on the fresh server), on a full disk, and for a file that can be written
  and not unlinked (\<open>cv.pdf\<close> on the locked server): each request ends in an unhandled
  exception.
\<close>

theorem pdf_backend_unavailable_counterexample:
  "fitz (stub_libs None (Inl ''not a docx'')) = None
   \<and> endswith (lower ''reports/cv.pdf'') ''.pdf''
   \<and> fst (parse_document (stub_libs None (Inl ''not a docx'')) fresh_server
          (upload_request ''reports/cv.pdf'' ''%PDF-1.7''))
       = Raised (OSError ''uploadresume/reports/cv.pdf'')
   \<and> endswith (lower ''cv.pdf'') ''.pdf''
   \<and> fst (parse_document (stub_libs None (Inl ''not a docx'')) (full_disk 3 fresh_server)
          (upload_request ''cv.pdf'' ''%PDF-1.7''))
       = Raised (OSError ''uploadresume/cv.pdf'')
   \<and> fst (parse_document (stub_libs None (Inl ''not a docx'')) locked_server
          (upload_request ''cv.pdf'' ''%PDF-1.7''))
       = Raised (PermissionError ''uploadresume/cv.pdf'')"
  by (simp add: parse_document_def upload_request_file file_bool_def file_save_def
      fresh_server_creatable locked_server_eval full_disk_eval eval_paths stub_libs_def
      extraction_step_def extract_text_from_pdf_def os_remove_def)

subsection \<open>Supported file types\<close>

text \<open>
  Claim C4, as amended. Take an upload whose temporary file is written in full and then
  removed, and whose extraction succeeds: the PDF library returns the pages, the DOCX
  library returns the paragraphs, or the \<open>.txt\<close> file can be read and is valid UTF-8. The
  extracted text is, for \<open>.pdf\<close>, the texts of the pages concatenated in order; for
  \<open>.docx\<close>, the text of each paragraph followed by a newline; for \<open>.txt\<close>, the content read
  with universal newlines. The handler answers 200 with that text as \<open>parsedText\<close> when it
  is not empty, and 500 with the fallback message when it is empty.
\<close>

theorem supported_types_return_text:
  assumes "request_files req ''file'' = Some file"
    and "creatable s (os_path_join UPLOAD_FOLDER (filename file))"
    and "copy_stops s (os_path_join UPLOAD_FOLDER (filename file)) = None"
    and "removable s (os_path_join UPLOAD_FOLDER (filename file))"
  shows
    "(\<forall>fitz_open pages.
        endswith (lower (filename file)) ''.pdf'' \<and> fitz env = Some fitz_open
        \<and> fitz_open ((files s)(os_path_join UPLOAD_FOLDER (filename file) \<mapsto> content file))
              (os_path_join UPLOAD_FOLDER (filename file)) = Inr pages
        \<longrightarrow> fst (parse_document env s req)
              = (if concat pages = [] then Returned 500 (Error fallback_message)
                 else Returned 200 (ParsedText (concat pages))))
     \<and> (\<forall>paragraphs.
        endswith (lower (filename file)) ''.docx''
        \<and> docx_Document env
              ((files s)(os_path_join UPLOAD_FOLDER (filename file) \<mapsto> content file))
              (os_path_join UPLOAD_FOLDER (filename file)) = Inr paragraphs
        \<longrightarrow> fst (parse_document env s req)
              = (if concat (map (\<lambda>t. t @ [LF]) paragraphs) = []
                 then Returned 500 (Error fallback_message)
                 else Returned 200 (ParsedText (concat (map (\<lambda>t. t @ [LF]) paragraphs)))))
     \<and> (endswith (lower (filename file)) ''.txt''
        \<and> readable s (os_path_join UPLOAD_FOLDER (filename file))
        \<and> valid_utf8 (content file)
        \<longrightarrow> fst (parse_document env s req)
              = (if translate_newlines (content file) = []
                 then Returned 500 (Error fallback_message)
                 else Returned 200 (ParsedText (translate_newlines (content file)))))"
proof (intro conjI allI impI)
  let ?p = "os_path_join UPLOAD_FOLDER (filename file)"
  {
    fix fitz_open pages
    assume h: "endswith (lower (filename file)) ''.pdf'' \<and> fitz env = Some fitz_open
        \<and> fitz_open ((files s)(?p \<mapsto> content file)) ?p = Inr pages"
    then have "fst (extract_text_from_pdf env ?p (after_save file ?p s)) = (Some (concat pages), None)"
      using extract_text_from_pdf_opened [of env fitz_open "after_save file ?p s" ?p pages]
      by (simp add: files_after_save)
    with h show "fst (parse_document env s req)
        = (if concat pages = [] then Returned 500 (Error fallback_message)
           else Returned 200 (ParsedText (concat pages)))"
      using parse_document_pdf [OF assms(1) _ assms(2,3) refl, of env] assms(4)
      by (simp add: respond_text)
  }
  {
    fix paragraphs
    assume h: "endswith (lower (filename file)) ''.docx''
        \<and> docx_Document env ((files s)(?p \<mapsto> content file)) ?p = Inr paragraphs"
    then have "fst (extract_text_from_docx env ?p (after_save file ?p s))
        = (Some (concat (map (\<lambda>t. t @ [LF]) paragraphs)), None)"
      using extract_text_from_docx_opened [of env "after_save file ?p s" ?p paragraphs]
      by (simp add: files_after_save)
    with h show "fst (parse_document env s req)
        = (if concat (map (\<lambda>t. t @ [LF]) paragraphs) = []
           then Returned 500 (Error fallback_message)
           else Returned 200 (ParsedText (concat (map (\<lambda>t. t @ [LF]) paragraphs))))"
      using parse_document_docx [OF assms(1) _ assms(2,3) refl, of env] assms(4)
      by (simp only: respond_text if_True)
  }
  {
    assume h: "endswith (lower (filename file)) ''.txt'' \<and> readable s ?p
        \<and> valid_utf8 (content file)"
    then have "fst (read_txt env ?p (after_save file ?p s))
        = (Some (translate_newlines (content file)), None)"
      using read_txt_valid [of "after_save file ?p s" ?p "content file" env]
      by (simp add: files_after_save)
    with h show "fst (parse_document env s req)
        = (if translate_newlines (content file) = []
           then Returned 500 (Error fallback_message)
           else Returned 200 (ParsedText (translate_newlines (content file))))"
      using parse_document_txt [OF assms(1) _ assms(2,3) refl, of env] assms(4)
      by (simp only: respond_text if_True)
  }
qed

theorem supported_types_return_text_witness:
  "fst (parse_document (stub_libs (Some (Inr [''Page one. '', ''Page two.''])) (Inl ''not a docx''))
          fresh_server (upload_request ''cv.pdf'' ''%PDF-1.7''))
       = Returned 200 (ParsedText ''Page one. Page two.'')
   \<and> fst (parse_document (stub_libs None (Inr [''A'', ''B''])) fresh_server
          (upload_request ''cv.docx'' ''PK''))
       = Returned 200 (ParsedText ''A\<newline>B\<newline>'')
   \<and> fst (parse_document (stub_libs None (Inl ''not a docx'')) fresh_server
          (upload_request ''note.txt'' ''hello\<newline>world''))
       = Returned 200 (ParsedText ''hello\<newline>world'')
   \<and> fst (parse_document (stub_libs None (Inr [])) fresh_server
          (upload_request ''blank.docx'' ''PK''))
       = Returned 500 (Error fallback_message)"
proof -
  let ?pdf_env = "stub_libs (Some (Inr [''Page one. '', ''Page two.''])) (Inl ''not a docx'')"
  let ?docx_env = "stub_libs None (Inr [''A'', ''B''])"
  let ?txt_env = "stub_libs None (Inl ''not a docx'')"
  let ?blank_env = "stub_libs None (Inr [])"
  have r: "request_files (upload_request fname bs) ''file'' = Some (file_storage fname bs)"
    for fname bs by (simp add: upload_request_file)
  have c: "creatable fresh_server (os_path_join UPLOAD_FOLDER (filename (file_storage ''cv.pdf'' bs)))"
    "creatable fresh_server (os_path_join UPLOAD_FOLDER (filename (file_storage ''cv.docx'' bs)))"
    "creatable fresh_server (os_path_join UPLOAD_FOLDER (filename (file_storage ''note.txt'' bs)))"
    "creatable fresh_server (os_path_join UPLOAD_FOLDER (filename (file_storage ''blank.docx'' bs)))"
    for bs by (simp_all add: upload_request_file fresh_server_creatable eval_paths)
  have k: "copy_stops fresh_server p = None" and m: "removable fresh_server p" for p
    by (simp_all add: fresh_server_creatable)
  have "fst (parse_document ?pdf_env fresh_server (upload_request ''cv.pdf'' ''%PDF-1.7''))
      = (if concat [''Page one. '', ''Page two.''] = [] then Returned 500 (Error fallback_message)
         else Returned 200 (ParsedText (concat [''Page one. '', ''Page two.''])))"
    by (rule supported_types_return_text [where env = ?pdf_env, OF r c(1) k m, THEN conjunct1,
          rule_format, where fitz_open = "\<lambda>fs p. Inr [''Page one. '', ''Page two.'']"])
      (simp add: upload_request_file eval_paths stub_libs_def)
  moreover have "fst (parse_document ?docx_env fresh_server (upload_request ''cv.docx'' ''PK''))
      = (if concat (map (\<lambda>t. t @ [LF]) [''A'', ''B'']) = []
         then Returned 500 (Error fallback_message)
         else Returned 200 (ParsedText (concat (map (\<lambda>t. t @ [LF]) [''A'', ''B'']))))"
    by (rule supported_types_return_text [where env = ?docx_env, OF r c(2) k m, THEN conjunct2,
          THEN conjunct1, rule_format])
      (simp add: upload_request_file eval_paths stub_libs_def)
  moreover have "fst (parse_document ?txt_env fresh_server
        (upload_request ''note.txt'' ''hello\<newline>world''))
      = (if translate_newlines (content (file_storage ''note.txt'' ''hello\<newline>world'')) = []
         then Returned 500 (Error fallback_message)
         else Returned 200 (ParsedText (translate_newlines
          (content (file_storage ''note.txt'' ''hello\<newline>world'')))))"
    by (rule supported_types_return_text [where env = ?txt_env, OF r c(3) k m, THEN conjunct2,
          THEN conjunct2, rule_format])
      (simp add: upload_request_file eval_paths valid_utf8_def fresh_server_creatable)
  moreover have "fst (parse_document ?blank_env fresh_server (upload_request ''blank.docx'' ''PK''))
      = (if concat (map (\<lambda>t. t @ [LF]) []) = []
         then Returned 500 (Error fallback_message)
         else Returned 200 (ParsedText (concat (map (\<lambda>t. t @ [LF]) []))))"
    by (rule supported_types_return_text [where env = ?blank_env, OF r c(4) k m, THEN conjunct2,
          THEN conjunct1, rule_format])
      (simp add: upload_request_file eval_paths stub_libs_def)
  ultimately show ?thesis
    by (simp add: upload_request_file LF_def CR_def)
qed

text \<open>
  The claim as stated fails when the extraction succeeds with an empty text (an empty
  \<open>.txt\<close> file, a \<open>.docx\<close> without paragraphs, a \<open>.pdf\<close> whose pages carry no text): the answer
  is 500 with the fallback message. A \<open>.txt\<close> file with a carriage return is not returned
  verbatim. An upload that cannot be saved, or saved and not removed, ends in an
  unhandled exception, and a \<open>.txt\<close> file that cannot be read back is answered 500.
\<close>

theorem supported_types_return_text_counterexample:
  "valid_utf8 []
   \<and> fst (parse_document (stub_libs None (Inl ''not a docx'')) fresh_server
          (upload_request ''empty.txt'' []))
       = Returned 500 (Error fallback_message)
   \<and> fst (parse_document (stub_libs None (Inr [])) fresh_server
          (upload_request ''blank.docx'' ''PK''))
       = Returned 500 (Error fallback_message)
   \<and> fst (parse_document (stub_libs (Some (Inr [[], []])) (Inl ''not a docx'')) fresh_server
          (upload_request ''scan.pdf'' ''%PDF-1.7''))
       = Returned 500 (Error fallback_message)
   \<and> valid_utf8 (''line'' @ [CR] @ ''end'')
   \<and> fst (parse_document (stub_libs None (Inl ''not a docx'')) fresh_server
          (upload_request ''mac.txt'' (''line'' @ [CR] @ ''end'')))
       = Returned 200 (ParsedText (''line'' @ [LF] @ ''end''))
   \<and> ''line'' @ [LF] @ ''end'' \<noteq> ''line'' @ [CR] @ ''end''
   \<and> fst (parse_document (stub_libs None (Inr [''A'', ''B''])) fresh_server
          (upload_request ''2024/cv.docx'' ''PK''))
       = Raised (OSError ''uploadresume/2024/cv.docx'')
   \<and> fst (parse_document (stub_libs None (Inr [''A'', ''B''])) (full_disk 1 fresh_server)
          (upload_request ''cv.docx'' ''PK''))
       = Raised (OSError ''uploadresume/cv.docx'')
   \<and> fst (parse_document (stub_libs None (Inr [''A'', ''B''])) locked_server
          (upload_request ''cv.docx'' ''PK''))
       = Raised (PermissionError ''uploadresume/cv.docx'')
   \<and> valid_utf8 ''hello''
   \<and> fst (parse_document (stub_libs None (Inl ''not a docx''))
          (write_only [''uploadresume/cv.txt''] fresh_server) (upload_request ''cv.txt'' ''hello''))
       = Returned 500 (Error ''Error reading TXT file: codec or file error'')"
  by (simp add: parse_document_def upload_request_file file_bool_def file_save_def
      fresh_server_creatable locked_server_eval full_disk_eval write_only_def eval_paths
      extraction_step_def read_txt_def open_read_utf8_def
      extract_text_from_pdf_def extract_text_from_docx_def stub_libs_def
      os_remove_def respond_def py_or_message valid_utf8_def CR_def LF_def)

subsection \<open>Unsupported file types\<close>

text \<open>
  Claim C5, as amended. Take an upload whose filename is not empty and does not end (in
  any case) in \<open>.pdf\<close>, \<open>.docx\<close> or \<open>.txt\<close>. If its temporary file is written in full and
  \<open>os.remove\<close> succeeds, the handler answers 400 with the unsupported-file-type message;
  it has saved the file and removed it again, and has made no other call: no extraction,
  and no second removal. If \<open>file.save\<close> cannot open the destination, nothing is written
  and its \<open>OSError\<close> leaves the handler; if the copy stops, the bytes written so far stay
  and the \<open>OSError\<close> leaves the handler; if \<open>os.remove\<close> raises, the file stays and the
  \<open>PermissionError\<close> leaves the handler.
\<close>

theorem unsupported_file_type:
  assumes "request_files req ''file'' = Some file" and "filename file \<noteq> []"
    and "\<not> endswith (lower (filename file)) ''.pdf''"
    and "\<not> endswith (lower (filename file)) ''.docx''"
    and "\<not> endswith (lower (filename file)) ''.txt''"
  shows "parse_document env s req =
    (if creatable s (os_path_join UPLOAD_FOLDER (filename file)) then
       (case copy_stops s (os_path_join UPLOAD_FOLDER (filename file)) of
          None \<Rightarrow>
            if removable s (os_path_join UPLOAD_FOLDER (filename file)) then
              (Returned 400 (Error ''Unsupported file type. Please upload a PDF, DOCX, or TXT file.''),
               s\<lparr>files := (files s)(os_path_join UPLOAD_FOLDER (filename file) := None),
                 calls := calls s @ [FileSave (os_path_join UPLOAD_FOLDER (filename file)),
                                     OsRemove (os_path_join UPLOAD_FOLDER (filename file))]\<rparr>)
            else
              (Raised (PermissionError (os_path_join UPLOAD_FOLDER (filename file))),
               s\<lparr>files := (files s)(os_path_join UPLOAD_FOLDER (filename file) \<mapsto> content file),
                 calls := calls s @ [FileSave (os_path_join UPLOAD_FOLDER (filename file)),
                                     OsRemove (os_path_join UPLOAD_FOLDER (filename file))]\<rparr>)
        | Some n \<Rightarrow>
            (Raised (OSError (os_path_join UPLOAD_FOLDER (filename file))),
             s\<lparr>files := (files s)(os_path_join UPLOAD_FOLDER (filename file)
                        \<mapsto> take n (content file)),
               calls := calls s @ [FileSave (os_path_join UPLOAD_FOLDER (filename file))]\<rparr>))
     else
       (Raised (OSError (os_path_join UPLOAD_FOLDER (filename file))),
        s\<lparr>calls := calls s @ [FileSave (os_path_join UPLOAD_FOLDER (filename file))]\<rparr>))"
  using parse_document_present [OF assms(1,2) refl, of env s]
    extraction_step_unsupported [OF assms(3,4,5)]
  by (simp add: unsupported_message_def finish_def after_remove_def after_refused_remove_def
      after_save_def after_partial_save_def split: option.split)

theorem unsupported_file_type_witness:
  "\<not> endswith (lower ''notes.xyz'') ''.pdf'' \<and> \<not> endswith (lower ''notes.xyz'') ''.docx''
   \<and> \<not> endswith (lower ''notes.xyz'') ''.txt''
   \<and> creatable fresh_server ''uploadresume/notes.xyz''
   \<and> copy_stops fresh_server ''uploadresume/notes.xyz'' = None
   \<and> removable fresh_server ''uploadresume/notes.xyz''
   \<and> fst (parse_document (stub_libs None (Inl ''not a docx'')) fresh_server
          (upload_request ''notes.xyz'' ''hello''))
       = Returned 400 (Error ''Unsupported file type. Please upload a PDF, DOCX, or TXT file.'')
   \<and> files (snd (parse_document (stub_libs None (Inl ''not a docx'')) fresh_server
          (upload_request ''notes.xyz'' ''hello''))) ''uploadresume/notes.xyz'' = None
   \<and> calls (snd (parse_document (stub_libs None (Inl ''not a docx'')) fresh_server
          (upload_request ''notes.xyz'' ''hello'')))
       = [FileSave ''uploadresume/notes.xyz'', OsRemove ''uploadresume/notes.xyz'']"
proof -
  let ?file = "file_storage ''notes.xyz'' ''hello''"
  have p: "os_path_join UPLOAD_FOLDER ''notes.xyz'' = ''uploadresume/notes.xyz''"
    by (simp add: eval_paths)
  have h1: "request_files (upload_request ''notes.xyz'' ''hello'') ''file'' = Some ?file"
    by (simp add: upload_request_file)
  have h2: "filename ?file \<noteq> []"
    by (simp add: upload_request_file)
  have h3: "\<not> endswith (lower (filename ?file)) ''.pdf''"
    and h4: "\<not> endswith (lower (filename ?file)) ''.docx''"
    and h5: "\<not> endswith (lower (filename ?file)) ''.txt''"
    by (simp_all add: upload_request_file eval_paths)
  have c: "creatable fresh_server ''uploadresume/notes.xyz''"
    by (simp add: fresh_server_creatable eval_paths)
  show ?thesis
    using unsupported_file_type [OF h1 h2 h3 h4 h5, of "stub_libs None (Inl ''not a docx'')"
        fresh_server] h3 h4 h5 c
    by (simp add: upload_request_file p fresh_server_creatable)
qed

text \<open>
  The claim as stated fails when the temporary file cannot be written (on the fresh
  server \<open>drafts/notes.xyz\<close> names a directory that does not exist) and when it cannot be
  removed (\<open>/proc/self/comm\<close> on the locked server, which stays on disk): the request ends
  in an unhandled exception instead of the answer 400.
\<close>

theorem unsupported_file_type_counterexample:
  "''drafts/notes.xyz'' \<noteq> []
   \<and> \<not> endswith (lower ''drafts/notes.xyz'') ''.pdf''
   \<and> \<not> endswith (lower ''drafts/notes.xyz'') ''.docx''
   \<and> \<not> endswith (lower ''drafts/notes.xyz'') ''.txt''
   \<and> fst (parse_document (stub_libs None (Inl ''not a docx'')) fresh_server
          (upload_request ''drafts/notes.xyz'' ''hello''))
       = Raised (OSError ''uploadresume/drafts/notes.xyz'')
   \<and> ''/proc/self/comm'' \<noteq> []
   \<and> \<not> endswith (lower ''/proc/self/comm'') ''.pdf''
   \<and> \<not> endswith (lower ''/proc/self/comm'') ''.docx''
   \<and> \<not> endswith (lower ''/proc/self/comm'') ''.txt''
   \<and> fst (parse_document (stub_libs None (Inl ''not a docx'')) locked_server
          (upload_request ''/proc/self/comm'' ''hello''))
       = Raised (PermissionError ''/proc/self/comm'')
   \<and> files (snd (parse_document (stub_libs None (Inl ''not a docx'')) locked_server
          (upload_request ''/proc/self/comm'' ''hello''))) ''/proc/self/comm'' = Some ''hello''"
  by (simp add: parse_document_def upload_request_file file_bool_def file_save_def
      fresh_server_creatable locked_server_eval eval_paths extraction_step_def os_remove_def)

subsection \<open>The paragraphs of a DOCX file\<close>

text \<open>
  Claim C6. For a \<open>.docx\<close> upload that the DOCX library opens, the extracted text is the
  text of each paragraph followed by a newline, in document order. When the file was
  written in full and is then removed, the handler answers 200 with that text, unless the
  document has no paragraph at all (the text is then empty and the answer is 500); when
  the copy stops or the removal is refused, the exception leaves the handler. Paragraphs
  \<open>A\<close> and \<open>B\<close> give \<open>A\nB\n\<close>.
\<close>

theorem docx_paragraphs_in_order:
  assumes "request_files req ''file'' = Some file"
    and "endswith (lower (filename file)) ''.docx''"
    and "creatable s (os_path_join UPLOAD_FOLDER (filename file))"
    and "docx_Document env
           ((files s)(os_path_join UPLOAD_FOLDER (filename file) \<mapsto> content file))
           (os_path_join UPLOAD_FOLDER (filename file)) = Inr paragraphs"
  shows "fst (extract_text_from_docx env (os_path_join UPLOAD_FOLDER (filename file))
                (after_save file (os_path_join UPLOAD_FOLDER (filename file)) s))
           = (Some (concat (map (\<lambda>t. t @ [LF]) paragraphs)), None)
    \<and> fst (parse_document env s req)
           = (if copy_stops s (os_path_join UPLOAD_FOLDER (filename file)) \<noteq> None
              then Raised (OSError (os_path_join UPLOAD_FOLDER (filename file)))
              else if \<not> removable s (os_path_join UPLOAD_FOLDER (filename file))
              then Raised (PermissionError (os_path_join UPLOAD_FOLDER (filename file)))
              else if paragraphs = [] then Returned 500 (Error fallback_message)
              else Returned 200 (ParsedText (concat (map (\<lambda>t. t @ [LF]) paragraphs))))"
proof -
  let ?p = "os_path_join UPLOAD_FOLDER (filename file)"
  have ne: "filename file \<noteq> []" using assms(2) endswith_nonempty by blast
  have ex: "fst (extract_text_from_docx env ?p (after_save file ?p s))
      = (Some (concat (map (\<lambda>t. t @ [LF]) paragraphs)), None)"
    using assms(4) extract_text_from_docx_opened [of env "after_save file ?p s" ?p paragraphs]
    by (simp add: files_after_save)
  have e: "concat (map (\<lambda>t. t @ [LF]) paragraphs) = [] \<longleftrightarrow> paragraphs = []"
    by (cases paragraphs) simp_all
  have "fst (parse_document env s req)
      = (if copy_stops s ?p \<noteq> None then Raised (OSError ?p)
         else if \<not> removable s ?p then Raised (PermissionError ?p)
         else if paragraphs = [] then Returned 500 (Error fallback_message)
         else Returned 200 (ParsedText (concat (map (\<lambda>t. t @ [LF]) paragraphs))))"
  proof (cases "copy_stops s ?p = None")
    case False
    then show ?thesis
      using fst_parse_document_unsaved [OF assms(1) ne refl, of s env] by simp
  next
    case True
    then show ?thesis
      using ex e parse_document_docx [OF assms(1,2,3) True refl, of env]
      by (simp add: respond_text)
  qed
  with ex show ?thesis by simp
qed

theorem docx_paragraphs_in_order_witness:
  "endswith (lower ''cv.docx'') ''.docx''
   \<and> creatable fresh_server ''uploadresume/cv.docx''
   \<and> fst (parse_document (stub_libs None (Inr [''A'', ''B''])) fresh_server
          (upload_request ''cv.docx'' ''PK''))
       = Returned 200 (ParsedText ''A\<newline>B\<newline>'')"
proof -
  let ?env = "stub_libs None (Inr [''A'', ''B''])"
  let ?file = "file_storage ''cv.docx'' ''PK''"
  have p: "os_path_join UPLOAD_FOLDER ''cv.docx'' = ''uploadresume/cv.docx''"
    by (simp add: eval_paths)
  have h1: "request_files (upload_request ''cv.docx'' ''PK'') ''file'' = Some ?file"
    by (simp add: upload_request_file)
  have h2: "endswith (lower (filename ?file)) ''.docx''"
    by (simp add: upload_request_file eval_paths)
  have h3: "creatable fresh_server (os_path_join UPLOAD_FOLDER (filename ?file))"
    by (simp add: upload_request_file fresh_server_creatable eval_paths)
  have h4: "docx_Document ?env
      ((files fresh_server)(os_path_join UPLOAD_FOLDER (filename ?file) \<mapsto> content ?file))
      (os_path_join UPLOAD_FOLDER (filename ?file)) = Inr [''A'', ''B'']"
    by (simp add: stub_libs_def)
  show ?thesis
    using docx_paragraphs_in_order [OF h1 h2 h3 h4] h2 h3
    by (simp add: upload_request_file p LF_def fresh_server_creatable)
qed

subsection \<open>The content of a text file\<close>

text \<open>
  Claim C7, as amended. A \<open>.txt\<close> upload whose temporary file is written in full, can be
  read back and is then removed, and whose content is valid UTF-8 and not empty, is
  answered 200, and \<open>parsedText\<close> is the content read with universal newlines: it is the
  content itself when the content has no carriage return. The content \<open>hello\nworld\<close>
  comes back as it is.
\<close>

theorem txt_read_as_utf8:
  assumes "request_files req ''file'' = Some file"
    and "endswith (lower (filename file)) ''.txt''"
    and "creatable s (os_path_join UPLOAD_FOLDER (filename file))"
    and "copy_stops s (os_path_join UPLOAD_FOLDER (filename file)) = None"
    and "readable s (os_path_join UPLOAD_FOLDER (filename file))"
    and "removable s (os_path_join UPLOAD_FOLDER (filename file))"
    and "valid_utf8 (content file)" and "content file \<noteq> []"
  shows "fst (parse_document env s req)
           = Returned 200 (ParsedText (translate_newlines (content file)))
    \<and> (CR \<notin> set (content file) \<longrightarrow> translate_newlines (content file) = content file)"
proof -
  let ?p = "os_path_join UPLOAD_FOLDER (filename file)"
  have "fst (read_txt env ?p (after_save file ?p s))
      = (Some (translate_newlines (content file)), None)"
    using assms(5,7) read_txt_valid [of "after_save file ?p s" ?p "content file" env]
    by (simp add: files_after_save)
  then show ?thesis
    using parse_document_txt [OF assms(1,2,3,4) refl, of env] assms(6,8)
    by (simp add: respond_text translate_newlines_Nil translate_newlines_id)
qed

theorem txt_read_as_utf8_witness:
  "endswith (lower ''note.txt'') ''.txt''
   \<and> creatable fresh_server ''uploadresume/note.txt''
   \<and> copy_stops fresh_server ''uploadresume/note.txt'' = None
   \<and> readable fresh_server ''uploadresume/note.txt''
   \<and> removable fresh_server ''uploadresume/note.txt''
   \<and> valid_utf8 ''hello\<newline>world''
   \<and> fst (parse_document (stub_libs None (Inl ''not a docx'')) fresh_server
          (upload_request ''note.txt'' ''hello\<newline>world''))
       = Returned 200 (ParsedText ''hello\<newline>world'')"
proof -
  let ?file = "file_storage ''note.txt'' ''hello\<newline>world''"
  have p: "os_path_join UPLOAD_FOLDER ''note.txt'' = ''uploadresume/note.txt''"
    by (simp add: eval_paths)
  have h1: "request_files (upload_request ''note.txt'' ''hello\<newline>world'') ''file'' = Some ?file"
    by (simp add: upload_request_file)
  have h2: "endswith (lower (filename ?file)) ''.txt''"
    by (simp add: upload_request_file eval_paths)
  have h3: "creatable fresh_server (os_path_join UPLOAD_FOLDER (filename ?file))"
    by (simp add: upload_request_file fresh_server_creatable eval_paths)
  have h4: "copy_stops fresh_server (os_path_join UPLOAD_FOLDER (filename ?file)) = None"
    and h5: "readable fresh_server (os_path_join UPLOAD_FOLDER (filename ?file))"
    and h6: "removable fresh_server (os_path_join UPLOAD_FOLDER (filename ?file))"
    by (simp_all add: fresh_server_creatable)
  have h7: "valid_utf8 (content ?file)"
    by (simp add: upload_request_file valid_utf8_def)
  have h8: "content ?file \<noteq> []"
    by (simp add: upload_request_file)
  have "CR \<notin> set ''hello\<newline>world''"
    by (simp add: CR_def)
  then show ?thesis
    using txt_read_as_utf8 [OF h1 h2 h3 h4 h5 h6 h7 h8] h2 h3 h7
    by (simp add: upload_request_file p fresh_server_creatable)
qed

text \<open>
  The claim as stated fails on these inputs: an empty file is valid UTF-8 and is answered
  500 with the fallback message; \<open>a\r\nb\<close> comes back as \<open>a\nb\<close>; a file that cannot be saved,
  on a missing directory or a full disk, ends the request in an unhandled \<open>OSError\<close>; a
  file that cannot be read back is answered 500; and a file that cannot be removed ends
  the request in an unhandled \<open>PermissionError\<close>.
\<close>

theorem txt_read_as_utf8_counterexample:
  "valid_utf8 []
   \<and> fst (parse_document (stub_libs None (Inl ''not a docx'')) fresh_server
          (upload_request ''empty.txt'' []))
       = Returned 500 (Error fallback_message)
   \<and> valid_utf8 (''a'' @ [CR, LF] @ ''b'')
   \<and> fst (parse_document (stub_libs None (Inl ''not a docx'')) fresh_server
          (upload_request ''dos.txt'' (''a'' @ [CR, LF] @ ''b'')))
       = Returned 200 (ParsedText (''a'' @ [LF] @ ''b''))
   \<and> ''a'' @ [LF] @ ''b'' \<noteq> ''a'' @ [CR, LF] @ ''b''
   \<and> valid_utf8 ''hello''
   \<and> fst (parse_document (stub_libs None (Inl ''not a docx'')) fresh_server
          (upload_request ''old/cv.txt'' ''hello''))
       = Raised (OSError ''uploadresume/old/cv.txt'')
   \<and> fst (parse_document (stub_libs None (Inl ''not a docx'')) (full_disk 3 fresh_server)
          (upload_request ''cv.txt'' ''hello''))
       = Raised (OSError ''uploadresume/cv.txt'')
   \<and> fst (parse_document (stub_libs None (Inl ''not a docx''))
          (write_only [''uploadresume/cv.txt''] fresh_server) (upload_request ''cv.txt'' ''hello''))
       = Returned 500 (Error ''Error reading TXT file: codec or file error'')
   \<and> fst (parse_document (stub_libs None (Inl ''not a docx'')) locked_server
          (upload_request ''note.txt'' ''hello''))
       = Raised (PermissionError ''uploadresume/note.txt'')"
  by (simp add: parse_document_def upload_request_file file_bool_def file_save_def
      fresh_server_creatable locked_server_eval full_disk_eval write_only_def eval_paths
      extraction_step_def read_txt_def open_read_utf8_def stub_libs_def
      os_remove_def respond_def py_or_message valid_utf8_def CR_def LF_def)

subsection \<open>The final fallback\<close>

text \<open>
  Claim C8. For a request that passes both input checks the guard \<open>if file\<close> is true, and
  no request at all is answered 500 with \<open>An unexpected error occurred.\<close>: line 99 is
  unreachable.
\<close>

theorem fallback_unreachable:
  assumes "request_files req ''file'' = Some file" and "filename file \<noteq> []"
  shows "file_bool file
    \<and> (\<forall>env' s' req'. fst (parse_document env' s' req') \<noteq> Returned 500 (Error ''An unexpected error occurred.''))"
proof
  show "file_bool file"
    using assms(2) by (simp add: file_bool_def truthy_def)
  show "\<forall>env' s' req'. fst (parse_document env' s' req') \<noteq> Returned 500 (Error ''An unexpected error occurred.'')"
  proof (intro allI)
    fix env' s' req'
    show "fst (parse_document env' s' req') \<noteq> Returned 500 (Error ''An unexpected error occurred.'')"
    proof (cases "request_files req' ''file''")
      case None
      then show ?thesis by (simp add: parse_document_def)
    next
      case (Some f)
      show ?thesis
      proof (cases "filename f = []")
        case True
        with Some show ?thesis by (simp add: parse_document_def)
      next
        case ne: False
        let ?p = "os_path_join UPLOAD_FOLDER (filename f)"
        show ?thesis
        proof (cases "creatable s' ?p \<and> copy_stops s' ?p = None")
          case False
          then show ?thesis
            using fst_parse_document_unsaved [OF Some ne refl False, of env'] by simp
        next
          case True
          then have c: "creatable s' ?p" "copy_stops s' ?p = None" by simp_all
          note eq = fst_parse_document_saved [OF Some ne c refl, of env']
          show ?thesis
          proof (cases "extraction_step env' (filename f) ?p (after_save f ?p s')")
            case None
            with eq show ?thesis by simp
          next
            case (Some a)
            obtain r s2 where a: "a = (r, s2)" by (cases a)
            with eq Some respond_not_unexpected [of env' "filename f" ?p "after_save f ?p s'" r s2]
            show ?thesis by (simp add: unexpected_message_def)
          qed
        qed
      qed
    qed
  qed
qed

theorem fallback_unreachable_witness:
  "file_bool (file_storage ''cv.txt'' ''hello'')
   \<and> fst (parse_document (stub_libs None (Inl ''not a docx'')) fresh_server
          (upload_request ''cv.txt'' ''hello''))
       \<noteq> Returned 500 (Error ''An unexpected error occurred.'')"
  using fallback_unreachable [of "upload_request ''cv.txt'' ''hello''"
      "file_storage ''cv.txt'' ''hello''"]
  by (simp add: upload_request_file)

subsection \<open>Rejected requests\<close>

text \<open>
  Claim C9. A request without the field \<open>file\<close>, or whose upload has an empty filename, is
  answered 400 before \<open>file.save\<close> is called: the state is returned as it was, with no file
  created and no call made.
\<close>

theorem rejected_before_save:
  assumes "request_files req ''file'' = None
           \<or> (\<exists>file. request_files req ''file'' = Some file \<and> filename file = [])"
  shows "parse_document env s req =
    (Returned 400
       (Error (if request_files req ''file'' = None then ''No file part in the request''
               else ''No selected file'')), s)"
  using assms by (auto simp: parse_document_def)

theorem rejected_before_save_witness:
  "parse_document (stub_libs None (Inl ''not a docx'')) fresh_server empty_request
     = (Returned 400 (Error ''No file part in the request''), fresh_server)
   \<and> parse_document (stub_libs None (Inl ''not a docx'')) fresh_server (upload_request [] ''data'')
     = (Returned 400 (Error ''No selected file''), fresh_server)"
  using rejected_before_save [of empty_request "stub_libs None (Inl ''not a docx'')" fresh_server]
    rejected_before_save [of "upload_request [] ''data''" "stub_libs None (Inl ''not a docx'')" fresh_server]
  by (simp add: empty_request_def upload_request_def file_storage_def)

subsection \<open>The path of the temporary file\<close>

text \<open>
  Claim C10. The handler saves the upload at \<open>os.path.join('uploadresume', filename)\<close>
  with the filename as the client sent it: an absolute filename is the path itself, any
  other is appended to \<open>uploadresume/\<close> unchanged. So an absolute filename is saved
  outside the upload folder, and so is \<open>../evil.txt\<close>, which has a supported extension and
  resolves to \<open>evil.txt\<close> beside the folder.
\<close>

theorem upload_path_unsanitized:
  assumes "request_files req ''file'' = Some file" and "filename file \<noteq> []"
  shows "(\<exists>rest. calls (snd (parse_document env s req))
            = calls s @ FileSave (os_path_join UPLOAD_FOLDER (filename file)) # rest)
    \<and> os_path_join UPLOAD_FOLDER (filename file)
        = (if startswith (filename file) ''/'' then filename file
           else ''uploadresume/'' @ filename file)
    \<and> (startswith (filename file) ''/'' \<longrightarrow>
          \<not> inside_upload_folder (os_path_join UPLOAD_FOLDER (filename file)))
    \<and> endswith (lower ''../evil.txt'') ''.txt''
    \<and> normpath (os_path_join UPLOAD_FOLDER ''../evil.txt'') = ''evil.txt''
    \<and> \<not> inside_upload_folder (os_path_join UPLOAD_FOLDER ''../evil.txt'')"
proof -
  let ?p = "os_path_join UPLOAD_FOLDER (filename file)"
  have log: "\<exists>rest. calls (snd (parse_document env s req)) = calls s @ FileSave ?p # rest"
  proof (cases "creatable s ?p")
    case False
    then show ?thesis using parse_document_present [OF assms refl, of env s] by simp
  next
    case True
    note eq = parse_document_present [OF assms refl, of env s]
    show ?thesis
    proof (cases "copy_stops s ?p")
      case (Some n)
      with eq True show ?thesis by (simp add: after_partial_save_def)
    next
      case None
      note copied = this
      show ?thesis
      proof (cases "extraction_step env (filename file) ?p (after_save file ?p s)")
        case None
        with eq True copied show ?thesis
          by (simp add: finish_def after_remove_def after_refused_remove_def after_save_def)
      next
        case (Some a)
        obtain r s2 where a: "a = (r, s2)" by (cases a)
        obtain more where "calls s2 = calls (after_save file ?p s) @ more"
          using calls_extraction_step Some a by blast
        with eq True copied Some a show ?thesis
          by (simp add: finish_def after_remove_def after_refused_remove_def after_save_def)
      qed
    qed
  qed
  have abs: "startswith (filename file) ''/'' \<longrightarrow> \<not> inside_upload_folder ?p"
    using absolute_outside by (simp add: os_path_join_upload)
  have ex: "endswith (lower ''../evil.txt'') ''.txt''"
    "normpath (os_path_join UPLOAD_FOLDER ''../evil.txt'') = ''evil.txt''"
    "\<not> inside_upload_folder (os_path_join UPLOAD_FOLDER ''../evil.txt'')"
    by (simp_all add: eval_paths normpath_def inside_upload_folder_def)
  show ?thesis
    using log abs ex os_path_join_upload [of "filename file"] by blast
qed

text \<open>
  On a server where \<open>/tmp\<close> is writable, the upload \<open>/tmp/evil.txt\<close> is saved over the file
  of that name, read back from there, and the file is then removed.
\<close>

theorem upload_path_unsanitized_witness:
  "endswith (lower ''/tmp/evil.txt'') ''.txt''
   \<and> \<not> inside_upload_folder ''/tmp/evil.txt''
   \<and> (\<exists>rest. calls (snd (parse_document (stub_libs None (Inl ''not a docx''))
          (server [UPLOAD_FOLDER, ''/tmp''] [(''/tmp/evil.txt'', ''old'')])
          (upload_request ''/tmp/evil.txt'' ''new''))) = FileSave ''/tmp/evil.txt'' # rest)
   \<and> fst (parse_document (stub_libs None (Inl ''not a docx''))
          (server [UPLOAD_FOLDER, ''/tmp''] [(''/tmp/evil.txt'', ''old'')])
          (upload_request ''/tmp/evil.txt'' ''new'')) = Returned 200 (ParsedText ''new'')
   \<and> files (server [UPLOAD_FOLDER, ''/tmp''] [(''/tmp/evil.txt'', ''old'')]) ''/tmp/evil.txt''
       = Some ''old''
   \<and> files (snd (parse_document (stub_libs None (Inl ''not a docx''))
          (server [UPLOAD_FOLDER, ''/tmp''] [(''/tmp/evil.txt'', ''old'')])
          (upload_request ''/tmp/evil.txt'' ''new''))) ''/tmp/evil.txt'' = None"
proof -
  let ?env = "stub_libs None (Inl ''not a docx'')"
  let ?s = "server [UPLOAD_FOLDER, ''/tmp''] [(''/tmp/evil.txt'', ''old'')]"
  let ?req = "upload_request ''/tmp/evil.txt'' ''new''"
  have h1: "request_files ?req ''file'' = Some (file_storage ''/tmp/evil.txt'' ''new'')"
    by (simp add: upload_request_file)
  have h2: "filename (file_storage ''/tmp/evil.txt'' ''new'') \<noteq> []"
    by (simp add: upload_request_file)
  have run: "parse_document ?env ?s ?req =
      (Returned 200 (ParsedText ''new''),
       ?s\<lparr>files := (files ?s)(''/tmp/evil.txt'' := None),
          calls := [FileSave ''/tmp/evil.txt'', OpenRead ''/tmp/evil.txt'',
                    OsRemove ''/tmp/evil.txt'']\<rparr>)"
    by (simp add: parse_document_def upload_request_file file_bool_def file_save_def
        server_def eval_paths extraction_step_def read_txt_def open_read_utf8_def
        os_remove_def respond_def valid_utf8_def CR_def LF_def)
  have old: "files ?s ''/tmp/evil.txt'' = Some ''old''"
    by (simp add: server_def)
  show ?thesis
    using upload_path_unsanitized [OF h1 h2, of ?env ?s] run old
    by (simp add: upload_request_file eval_paths server_def)
qed

end
